theory Spec2Isabelle
  imports Complex_Main
begin

section \<open>ROS geometry and visualization conversions for Drake\<close>

text \<open>
  A shallow embedding of \<^verbatim>\<open>src/ros-geometry.py\<close>. The module is glue between two
  libraries that are not part of the repository: pydrake (rigid transforms, shapes, the scene
  graph inspector) and the ROS1 message classes. Their values are modelled by the
  observations the module makes of them; their constructors that the module only calls
  (\<^verbatim>\<open>Quaternion(wxyz=...)\<close>, \<^verbatim>\<open>RigidTransform(q, p)\<close>) are parameters, for which
  a model of what pydrake does is given further down.

  Python floats are only copied from one field to another in this module, never computed
  with, so they are modelled as \<^typ>\<open>real\<close>.
\<close>

subsection \<open>ROS1 messages\<close>

text \<open>
  Message classes are records. Field names carry a prefix where the source's one-letter
  name (\<^verbatim>\<open>x\<close>, \<^verbatim>\<open>y\<close>, \<^verbatim>\<open>z\<close>, \<^verbatim>\<open>w\<close>, \<^verbatim>\<open>r\<close>, ...) is shared by several classes;
  \<^verbatim>\<open>id\<close>, \<^verbatim>\<open>type\<close> and \<^verbatim>\<open>text\<close> are suffixed. A default-constructed message has
  every number 0, every string empty, every flag false and every array empty.
\<close>

record Point =
  p_x :: real
  p_y :: real
  p_z :: real

record Vector3 =
  v_x :: real
  v_y :: real
  v_z :: real

record QuaternionMsg =
  q_x :: real
  q_y :: real
  q_z :: real
  q_w :: real

record Pose =
  position :: Point
  orientation :: QuaternionMsg

record Transform =
  translation :: Vector3
  rotation :: QuaternionMsg

record ColorRGBA =
  c_r :: real
  c_g :: real
  c_b :: real
  c_a :: real

text \<open>\<^verbatim>\<open>rospy.Time\<close> and \<^verbatim>\<open>rospy.Duration\<close>: seconds and nanoseconds.\<close>

record TVal =
  secs :: int
  nsecs :: int

type_synonym Time = TVal
type_synonym Duration = TVal

record Header =
  seq :: nat
  stamp :: Time
  frame_id :: string

record Marker =
  header :: Header
  ns :: string
  id' :: int
  type' :: int
  action :: int
  pose :: Pose
  scale :: Vector3
  color :: ColorRGBA
  lifetime :: Duration
  frame_locked :: bool
  points :: "Point list"
  colors :: "ColorRGBA list"
  text' :: string
  mesh_resource :: string
  mesh_use_embedded_materials :: bool

record MarkerArray =
  markers :: "Marker list"

record TransformStamped =
  ts_header :: Header
  child_frame_id :: string
  transform :: Transform

record TFMessage =
  transforms :: "TransformStamped list"

text \<open>The constants of \<^verbatim>\<open>visualization_msgs/Marker\<close> that the module names.\<close>

definition Marker_CUBE :: int where "Marker_CUBE = 1"
definition Marker_SPHERE :: int where "Marker_SPHERE = 2"
definition Marker_CYLINDER :: int where "Marker_CYLINDER = 3"
definition Marker_MESH_RESOURCE :: int where "Marker_MESH_RESOURCE = 10"
definition Marker_ADD :: int where "Marker_ADD = 0"

text \<open>Default constructors \<^verbatim>\<open>Pose()\<close>, \<^verbatim>\<open>Transform()\<close>, \<^verbatim>\<open>Marker()\<close>, ...\<close>

definition Point0 :: Point where
  "Point0 = \<lparr>p_x = 0, p_y = 0, p_z = 0\<rparr>"

definition Vector3_0 :: Vector3 where
  "Vector3_0 = \<lparr>v_x = 0, v_y = 0, v_z = 0\<rparr>"

definition QuaternionMsg0 :: QuaternionMsg where
  "QuaternionMsg0 = \<lparr>q_x = 0, q_y = 0, q_z = 0, q_w = 0\<rparr>"

definition Pose0 :: Pose where
  "Pose0 = \<lparr>position = Point0, orientation = QuaternionMsg0\<rparr>"

definition Transform0 :: Transform where
  "Transform0 = \<lparr>translation = Vector3_0, rotation = QuaternionMsg0\<rparr>"

definition ColorRGBA0 :: ColorRGBA where
  "ColorRGBA0 = \<lparr>c_r = 0, c_g = 0, c_b = 0, c_a = 0\<rparr>"

definition TVal0 :: TVal where
  "TVal0 = \<lparr>secs = 0, nsecs = 0\<rparr>"

definition Header0 :: Header where
  "Header0 = \<lparr>seq = 0, stamp = TVal0, frame_id = []\<rparr>"

definition Marker0 :: Marker where
  "Marker0 = \<lparr>header = Header0, ns = [], id' = 0, type' = 0, action = 0, pose = Pose0,
     scale = Vector3_0, color = ColorRGBA0, lifetime = TVal0, frame_locked = False,
     points = [], colors = [], text' = [], mesh_resource = [],
     mesh_use_embedded_materials = False\<rparr>"

definition MarkerArray0 :: MarkerArray where
  "MarkerArray0 = \<lparr>markers = []\<rparr>"

definition TransformStamped0 :: TransformStamped where
  "TransformStamped0 = \<lparr>ts_header = Header0, child_frame_id = [], transform = Transform0\<rparr>"

definition TFMessage0 :: TFMessage where
  "TFMessage0 = \<lparr>transforms = []\<rparr>"

text \<open>
  \<^verbatim>\<open>Duration(0.)\<close>: a float argument is split into whole seconds and the remaining
  nanoseconds; for 0.0 both are 0.
\<close>

definition Duration_0 :: Duration where
  "Duration_0 = \<lparr>secs = 0, nsecs = 0\<rparr>"

subsection \<open>pydrake values\<close>

text \<open>
  A \<^verbatim>\<open>RigidTransform\<close> is seen by this module through two calls only:
  \<^verbatim>\<open>X.translation()\<close> and \<^verbatim>\<open>X.rotation().ToQuaternion().wxyz()\<close>.
\<close>

record RigidTransform =
  rt_translation :: "real \<times> real \<times> real"
  rt_wxyz :: "real \<times> real \<times> real \<times> real"

record Rgba =
  rgba_r :: real
  rgba_g :: real
  rgba_b :: real
  rgba_a :: real

text \<open>
  The shape hierarchy of pydrake. The module imports \<^verbatim>\<open>Box\<close>, \<^verbatim>\<open>Sphere\<close>,
  \<^verbatim>\<open>Cylinder\<close>, \<^verbatim>\<open>Mesh\<close> and \<^verbatim>\<open>Convex\<close>; its comment names the capsule and the
  ellipsoid as shapes it does not support, and the half space is the remaining one.
  \<^verbatim>\<open>Box\<close> carries its \<^verbatim>\<open>size()\<close>, \<^verbatim>\<open>Mesh\<close> and \<^verbatim>\<open>Convex\<close> their
  \<^verbatim>\<open>filename()\<close> and \<^verbatim>\<open>scale()\<close>.
\<close>

datatype Shape =
    Box real real real
  | Sphere real
  | Cylinder real real
  | Mesh string real
  | Convex string real
  | Capsule real real
  | Ellipsoid real real real
  | HalfSpace

datatype Role = kUnassigned | kProximity | kIllustration | kPerception

type_synonym GeometryId = nat
type_synonym FrameId = nat

text \<open>
  A property bag, read by \<^verbatim>\<open>HasProperty(group, name)\<close> and
  \<^verbatim>\<open>GetProperty(group, name)\<close>. The only property the module reads is the diffuse
  colour, an \<^verbatim>\<open>Rgba\<close>.
\<close>

type_synonym GeometryProperties = "string \<times> string \<rightharpoonup> Rgba"

definition HasProperty :: "GeometryProperties \<Rightarrow> string \<Rightarrow> string \<Rightarrow> bool" where
  "HasProperty properties group_name name = (properties (group_name, name) \<noteq> None)"

definition GetProperty :: "GeometryProperties \<Rightarrow> string \<Rightarrow> string \<Rightarrow> Rgba option" where
  "GetProperty properties group_name name = properties (group_name, name)"

text \<open>
  The inspector of a scene graph, as the functions the module calls on it.
  \<^verbatim>\<open>GetName\<close> is overloaded in pydrake on geometry and frame identifiers.
\<close>

record SceneGraphInspector =
  GetAllGeometryIds :: "GeometryId list"
  GetShape :: "GeometryId \<Rightarrow> Shape"
  GetFrameId :: "GeometryId \<Rightarrow> FrameId"
  GetPoseInFrame :: "GeometryId \<Rightarrow> RigidTransform"
  GetName_geometry :: "GeometryId \<Rightarrow> string"
  GetName_frame :: "FrameId \<Rightarrow> string"
  GetProximityProperties :: "GeometryId \<Rightarrow> GeometryProperties option"
  GetIllustrationProperties :: "GeometryId \<Rightarrow> GeometryProperties option"
  GetPerceptionProperties :: "GeometryId \<Rightarrow> GeometryProperties option"

record QueryObject =
  inspector :: SceneGraphInspector
  X_WF :: "FrameId \<Rightarrow> RigidTransform"

subsection \<open>Errors\<close>

text \<open>
  Every failure of the module is a Python \<^verbatim>\<open>assert\<close>; the constructors tell the
  assertions apart: the unsupported shape of \<^verbatim>\<open>to_ros_markers\<close>, the role of
  \<^verbatim>\<open>get_role_properties\<close>, and the two counts of \<^verbatim>\<open>sanity_check_query_object\<close>.
  Assertions are taken as enabled, which is the interpreter's default.
\<close>

datatype error =
    Unsupported_type Shape
  | Assert_role Role
  | Assert_frame_names
  | Assert_geometry_names

subsection \<open>Pose and transform codec\<close>

text \<open>
  \<^verbatim>\<open>_write_pose_msg\<close> assigns to the fields of the two message objects it is given;
  the model returns them updated. \<^verbatim>\<open>RigidTransform(X_AB)\<close> copies its argument.
  The point and the vector message have the same three fields, so the function is given
  once for each.
\<close>

definition write_pose_msg_Point ::
  "RigidTransform \<Rightarrow> Point \<Rightarrow> QuaternionMsg \<Rightarrow> Point \<times> QuaternionMsg" where
  "write_pose_msg_Point X_AB p q =
     (case rt_translation X_AB of (tx, ty, tz) \<Rightarrow>
      case rt_wxyz X_AB of (w, x, y, z) \<Rightarrow>
        (p\<lparr>p_x := tx, p_y := ty, p_z := tz\<rparr>,
         q\<lparr>q_w := w, q_x := x, q_y := y, q_z := z\<rparr>))"

definition write_pose_msg_Vector3 ::
  "RigidTransform \<Rightarrow> Vector3 \<Rightarrow> QuaternionMsg \<Rightarrow> Vector3 \<times> QuaternionMsg" where
  "write_pose_msg_Vector3 X_AB p q =
     (case rt_translation X_AB of (tx, ty, tz) \<Rightarrow>
      case rt_wxyz X_AB of (w, x, y, z) \<Rightarrow>
        (p\<lparr>v_x := tx, v_y := ty, v_z := tz\<rparr>,
         q\<lparr>q_w := w, q_x := x, q_y := y, q_z := z\<rparr>))"

definition to_ros_pose :: "RigidTransform \<Rightarrow> Pose" where
  "to_ros_pose X_AB =
     (let msg = Pose0 in
      case write_pose_msg_Point X_AB (position msg) (orientation msg) of
        (p, q) \<Rightarrow> msg\<lparr>position := p, orientation := q\<rparr>)"

definition to_ros_transform :: "RigidTransform \<Rightarrow> Transform" where
  "to_ros_transform X_AB =
     (let msg = Transform0 in
      case write_pose_msg_Vector3 X_AB (translation msg) (rotation msg) of
        (p, q) \<Rightarrow> msg\<lparr>translation := p, rotation := q\<rparr>)"

text \<open>
  \<^verbatim>\<open>_read_pose_msg\<close> calls two pydrake constructors, \<^verbatim>\<open>Quaternion(wxyz=[...])\<close> and
  \<^verbatim>\<open>RigidTransform(quaternion, position)\<close>. They are parameters of the model, and
  each may raise: an exception of theirs passes through \<^verbatim>\<open>_read_pose_msg\<close>, which
  has no check and no handler of its own.
\<close>

definition read_pose_msg ::
  "(real \<times> real \<times> real \<times> real \<Rightarrow> 'e + 'q) \<Rightarrow> ('q \<Rightarrow> real \<times> real \<times> real \<Rightarrow> 'e + 'x) \<Rightarrow>
   real \<times> real \<times> real \<Rightarrow> QuaternionMsg \<Rightarrow> 'e + 'x" where
  "read_pose_msg Quaternion_wxyz RigidTransform_of pxyz q =
     (case Quaternion_wxyz (q_w q, q_x q, q_y q, q_z q) of
        Inl e \<Rightarrow> Inl e
      | Inr quat \<Rightarrow> RigidTransform_of quat pxyz)"

definition from_ros_pose ::
  "(real \<times> real \<times> real \<times> real \<Rightarrow> 'e + 'q) \<Rightarrow> ('q \<Rightarrow> real \<times> real \<times> real \<Rightarrow> 'e + 'x) \<Rightarrow>
   Pose \<Rightarrow> 'e + 'x" where
  "from_ros_pose Quaternion_wxyz RigidTransform_of pose_msg =
     read_pose_msg Quaternion_wxyz RigidTransform_of
       (p_x (position pose_msg), p_y (position pose_msg), p_z (position pose_msg))
       (orientation pose_msg)"

definition from_ros_transform ::
  "(real \<times> real \<times> real \<times> real \<Rightarrow> 'e + 'q) \<Rightarrow> ('q \<Rightarrow> real \<times> real \<times> real \<Rightarrow> 'e + 'x) \<Rightarrow>
   Transform \<Rightarrow> 'e + 'x" where
  "from_ros_transform Quaternion_wxyz RigidTransform_of tr =
     read_pose_msg Quaternion_wxyz RigidTransform_of
       (v_x (translation tr), v_y (translation tr), v_z (translation tr))
       (rotation tr)"

subsection \<open>Marker codec\<close>

definition DEFAULT_RGBA :: Rgba where
  "DEFAULT_RGBA = \<lparr>rgba_r = 0.9, rgba_g = 0.9, rgba_b = 0.9, rgba_a = 1.0\<rparr>"

text \<open>
  The nested \<^verbatim>\<open>use_color\<close> replaces a missing colour by the default and writes the four
  components to the marker.
\<close>

definition use_color :: "Rgba option \<Rightarrow> Marker \<Rightarrow> Marker" where
  "use_color color_rgba marker =
     (let color_rgba = (case color_rgba of None \<Rightarrow> DEFAULT_RGBA | Some c \<Rightarrow> c) in
      marker\<lparr>color := (color marker)\<lparr>c_r := rgba_r color_rgba, c_g := rgba_g color_rgba,
        c_b := rgba_b color_rgba, c_a := rgba_a color_rgba\<rparr>\<rparr>)"

text \<open>
  The first lines of \<^verbatim>\<open>to_ros_markers\<close>, which are the same for every shape: a fresh
  \<^verbatim>\<open>Marker()\<close> with its header, pose, action, lifetime and frame lock set.
\<close>

definition marker_init :: "Time \<Rightarrow> string \<Rightarrow> RigidTransform \<Rightarrow> Marker" where
  "marker_init stamp_v frame_name X_FG =
     (let marker = Marker0;
          marker = marker\<lparr>header := (header marker)\<lparr>stamp := stamp_v\<rparr>\<rparr>;
          marker = marker\<lparr>header := (header marker)\<lparr>frame_id := frame_name\<rparr>\<rparr>;
          marker = marker\<lparr>pose := to_ros_pose X_FG\<rparr>;
          marker = marker\<lparr>action := Marker_ADD\<rparr>;
          marker = marker\<lparr>lifetime := Duration_0\<rparr>;
          marker = marker\<lparr>frame_locked := True\<rparr>
      in marker)"

text \<open>
  The three \<^verbatim>\<open>isinstance\<close> assertions at the head of \<^verbatim>\<open>to_ros_markers\<close> hold by
  the types of the arguments. The branches are in the order of the source; the last one is
  its \<^verbatim>\<open>assert False\<close>.
\<close>

fun to_ros_markers ::
  "Shape \<Rightarrow> Time \<Rightarrow> string \<Rightarrow> RigidTransform \<Rightarrow> Rgba option \<Rightarrow> error + Marker list" where
  "to_ros_markers (Box sx sy sz) stamp_v frame_name X_FG color_rgba =
     (let marker = marker_init stamp_v frame_name X_FG;
          marker = marker\<lparr>type' := Marker_CUBE\<rparr>;
          marker = marker\<lparr>scale := (scale marker)\<lparr>v_x := sx, v_y := sy, v_z := sz\<rparr>\<rparr>;
          marker = use_color color_rgba marker
      in Inr [marker])"
| "to_ros_markers (Sphere radius) stamp_v frame_name X_FG color_rgba =
     (let marker = marker_init stamp_v frame_name X_FG;
          marker = marker\<lparr>type' := Marker_SPHERE\<rparr>;
          marker = marker\<lparr>scale := (scale marker)\<lparr>v_x := radius\<rparr>\<rparr>;
          marker = marker\<lparr>scale := (scale marker)\<lparr>v_y := radius\<rparr>\<rparr>;
          marker = marker\<lparr>scale := (scale marker)\<lparr>v_z := radius\<rparr>\<rparr>;
          marker = use_color color_rgba marker
      in Inr [marker])"
| "to_ros_markers (Cylinder radius len) stamp_v frame_name X_FG color_rgba =
     (let marker = marker_init stamp_v frame_name X_FG;
          marker = marker\<lparr>type' := Marker_CYLINDER\<rparr>;
          marker = marker\<lparr>scale := (scale marker)\<lparr>v_x := radius\<rparr>\<rparr>;
          marker = marker\<lparr>scale := (scale marker)\<lparr>v_y := radius\<rparr>\<rparr>;
          marker = marker\<lparr>scale := (scale marker)\<lparr>v_z := len\<rparr>\<rparr>;
          marker = use_color color_rgba marker
      in Inr [marker])"
| "to_ros_markers (Mesh filename scale_v) stamp_v frame_name X_FG color_rgba =
     (let marker = marker_init stamp_v frame_name X_FG;
          marker = marker\<lparr>type' := Marker_MESH_RESOURCE\<rparr>;
          marker = marker\<lparr>mesh_resource := ''file://'' @ filename\<rparr>;
          marker = use_color color_rgba marker;
          marker = marker\<lparr>mesh_use_embedded_materials := True\<rparr>;
          marker = marker\<lparr>scale := (scale marker)\<lparr>v_x := scale_v, v_y := scale_v, v_z := scale_v\<rparr>\<rparr>
      in Inr [marker])"
| "to_ros_markers (Convex filename scale_v) stamp_v frame_name X_FG color_rgba =
     (let marker = marker_init stamp_v frame_name X_FG;
          marker = marker\<lparr>type' := Marker_MESH_RESOURCE\<rparr>;
          marker = marker\<lparr>mesh_resource := ''file://'' @ filename\<rparr>;
          marker = use_color color_rgba marker;
          marker = marker\<lparr>mesh_use_embedded_materials := True\<rparr>;
          marker = marker\<lparr>scale := (scale marker)\<lparr>v_x := scale_v, v_y := scale_v, v_z := scale_v\<rparr>\<rparr>
      in Inr [marker])"
| "to_ros_markers shape stamp_v frame_name X_FG color_rgba = Inl (Unsupported_type shape)"

subsection \<open>Scene enumeration\<close>

fun get_role_properties ::
  "SceneGraphInspector \<Rightarrow> Role \<Rightarrow> GeometryId \<Rightarrow> error + GeometryProperties option" where
  "get_role_properties insp kProximity geometry_id = Inr (GetProximityProperties insp geometry_id)"
| "get_role_properties insp kIllustration geometry_id =
     Inr (GetIllustrationProperties insp geometry_id)"
| "get_role_properties insp kPerception geometry_id = Inr (GetPerceptionProperties insp geometry_id)"
| "get_role_properties insp role geometry_id = Inl (Assert_role role)"

text \<open>
  The loop of \<^verbatim>\<open>sanity_check_query_object\<close> adds to four sets, in the order
  frame identifiers, frame names, geometry identifiers, geometry names. The \<^verbatim>\<open>debug\<close>
  flag only prints and is left out.
\<close>

type_synonym name_sets = "FrameId set \<times> string set \<times> GeometryId set \<times> string set"

fun sanity_loop :: "SceneGraphInspector \<Rightarrow> GeometryId list \<Rightarrow> name_sets \<Rightarrow> name_sets" where
  "sanity_loop insp [] sets = sets"
| "sanity_loop insp (geometry_id # rest) (frame_ids, frame_names, geometry_ids, geometry_names) =
     (let geometry_name = GetName_geometry insp geometry_id;
          frame_id_v = GetFrameId insp geometry_id;
          frame_name = GetName_frame insp frame_id_v
      in sanity_loop insp rest
           (insert frame_id_v frame_ids, insert frame_name frame_names,
            insert geometry_id geometry_ids, insert geometry_name geometry_names))"

definition sanity_check_query_object :: "QueryObject \<Rightarrow> error + unit" where
  "sanity_check_query_object query_object =
     (let insp = inspector query_object in
      case sanity_loop insp (GetAllGeometryIds insp) ({}, {}, {}, {}) of
        (frame_ids, frame_names, geometry_ids, geometry_names) \<Rightarrow>
          if card frame_ids \<noteq> card frame_names then Inl Assert_frame_names
          else if card geometry_ids \<noteq> card geometry_names then Inl Assert_geometry_names
          else Inr ())"

text \<open>
  The first loop of \<^verbatim>\<open>to_ros_marker_array\<close>, with the markers collected so far as
  accumulator. An assertion failure inside the loop ends it.
\<close>

fun marker_loop ::
  "SceneGraphInspector \<Rightarrow> Role \<Rightarrow> Time \<Rightarrow> GeometryId list \<Rightarrow> Marker list \<Rightarrow>
   error + Marker list" where
  "marker_loop insp role stamp_v [] acc = Inr acc"
| "marker_loop insp role stamp_v (geometry_id # rest) acc =
     (let shape = GetShape insp geometry_id;
          frame_id_v = GetFrameId insp geometry_id;
          X_FG = GetPoseInFrame insp geometry_id;
          frame_name = GetName_frame insp frame_id_v
      in case get_role_properties insp role geometry_id of
           Inl e \<Rightarrow> Inl e
         | Inr None \<Rightarrow> marker_loop insp role stamp_v rest acc
         | Inr (Some properties) \<Rightarrow>
             (let color_rgba =
                    (if HasProperty properties ''phong'' ''diffuse''
                     then GetProperty properties ''phong'' ''diffuse'' else None)
              in case to_ros_markers shape stamp_v frame_name X_FG color_rgba of
                   Inl e \<Rightarrow> Inl e
                 | Inr ms \<Rightarrow> marker_loop insp role stamp_v rest (acc @ ms)))"

text \<open>The second loop: \<^verbatim>\<open>for i, marker in enumerate(...): marker.id = i\<close>.\<close>

fun assign_ids :: "nat \<Rightarrow> Marker list \<Rightarrow> Marker list" where
  "assign_ids i [] = []"
| "assign_ids i (marker # rest) = marker\<lparr>id' := int i\<rparr> # assign_ids (Suc i) rest"

definition to_ros_marker_array :: "QueryObject \<Rightarrow> Role \<Rightarrow> Time \<Rightarrow> error + MarkerArray" where
  "to_ros_marker_array query_object role stamp_v =
     (let insp = inspector query_object;
          marker_array = MarkerArray0
      in case marker_loop insp role stamp_v (GetAllGeometryIds insp) (markers marker_array) of
           Inl e \<Rightarrow> Inl e
         | Inr ms \<Rightarrow> Inr (marker_array\<lparr>markers := assign_ids 0 ms\<rparr>))"

subsection \<open>Frame transforms\<close>

text \<open>
  \<^verbatim>\<open>to_ros_tf_message\<close> collects the frame identifiers in a set, sorts them, and
  appends one stamped transform for each.
\<close>

fun collect_frame_ids :: "SceneGraphInspector \<Rightarrow> GeometryId list \<Rightarrow> FrameId set \<Rightarrow> FrameId set" where
  "collect_frame_ids insp [] frame_ids = frame_ids"
| "collect_frame_ids insp (geometry_id # rest) frame_ids =
     collect_frame_ids insp rest (insert (GetFrameId insp geometry_id) frame_ids)"

definition tf_entry :: "QueryObject \<Rightarrow> Time \<Rightarrow> FrameId \<Rightarrow> TransformStamped" where
  "tf_entry query_object stamp_v frame_id_v =
     (let frame_name = GetName_frame (inspector query_object) frame_id_v;
          X = X_WF query_object frame_id_v;
          tr = TransformStamped0;
          tr = tr\<lparr>ts_header := (ts_header tr)\<lparr>frame_id := ''world''\<rparr>\<rparr>;
          tr = tr\<lparr>ts_header := (ts_header tr)\<lparr>stamp := stamp_v\<rparr>\<rparr>;
          tr = tr\<lparr>child_frame_id := frame_name\<rparr>;
          tr = tr\<lparr>transform := to_ros_transform X\<rparr>
      in tr)"

fun tf_loop :: "QueryObject \<Rightarrow> Time \<Rightarrow> FrameId list \<Rightarrow> TFMessage \<Rightarrow> TFMessage" where
  "tf_loop query_object stamp_v [] tf_message = tf_message"
| "tf_loop query_object stamp_v (frame_id_v # rest) tf_message =
     tf_loop query_object stamp_v rest
       (tf_message\<lparr>transforms := transforms tf_message @ [tf_entry query_object stamp_v frame_id_v]\<rparr>)"

definition to_ros_tf_message :: "QueryObject \<Rightarrow> Time \<Rightarrow> TFMessage" where
  "to_ros_tf_message query_object stamp_v =
     (let insp = inspector query_object;
          frame_ids = collect_frame_ids insp (GetAllGeometryIds insp) {};
          frame_ids = sorted_list_of_set frame_ids
      in tf_loop query_object stamp_v frame_ids TFMessage0)"

subsection \<open>Predicates used in the statements\<close>

text \<open>
  The shapes that \<^verbatim>\<open>to_ros_markers\<close> has a branch for, and the geometries that
  possess a role: those for which the inspector has a property set of that role. No
  geometry possesses the unassigned role.
\<close>

fun supported_shape :: "Shape \<Rightarrow> bool" where
  "supported_shape (Box sx sy sz) = True"
| "supported_shape (Sphere r) = True"
| "supported_shape (Cylinder r l) = True"
| "supported_shape (Mesh f s) = True"
| "supported_shape (Convex f s) = True"
| "supported_shape other = False"

fun has_role :: "SceneGraphInspector \<Rightarrow> Role \<Rightarrow> GeometryId \<Rightarrow> bool" where
  "has_role insp kProximity geometry_id = (GetProximityProperties insp geometry_id \<noteq> None)"
| "has_role insp kIllustration geometry_id = (GetIllustrationProperties insp geometry_id \<noteq> None)"
| "has_role insp kPerception geometry_id = (GetPerceptionProperties insp geometry_id \<noteq> None)"
| "has_role insp kUnassigned geometry_id = False"

subsection \<open>The pydrake constructors\<close>

text \<open>
  The behaviour of the two pydrake constructors that \<^verbatim>\<open>_read_pose_msg\<close> calls, over
  the reals. \<^verbatim>\<open>Quaternion(wxyz=...)\<close> keeps the four numbers it is given and raises
  \<^verbatim>\<open>RuntimeError\<close> (``Quaternion is not normalized'') unless their norm is 1; the
  tolerance of its floating-point comparison is left out. \<^verbatim>\<open>RigidTransform(q, p)\<close>
  stores the rotation of the quaternion, and \<^verbatim>\<open>rotation().ToQuaternion()\<close> answers
  with the canonical one of the two quaternions of that rotation: the one with positive
  \<open>w\<close>, or for \<open>w = 0\<close> the one whose component of largest magnitude (the first such
  among \<open>x\<close>, \<open>y\<close>, \<open>z\<close>) is positive. A transform is valid when its quaternion is one
  that \<^verbatim>\<open>ToQuaternion\<close> can answer with: of norm 1 and canonical.
\<close>

datatype pydrake_error = Quaternion_not_normalized

definition unit_wxyz :: "real \<times> real \<times> real \<times> real \<Rightarrow> bool" where
  "unit_wxyz q = (case q of (w, x, y, z) \<Rightarrow> w * w + x * x + y * y + z * z = 1)"

definition canonical_wxyz :: "real \<times> real \<times> real \<times> real \<Rightarrow> real \<times> real \<times> real \<times> real" where
  "canonical_wxyz q =
     (case q of (w, x, y, z) \<Rightarrow>
        (let lead = (if w \<noteq> 0 then w
                     else if y * y \<le> x * x \<and> z * z \<le> x * x then x
                     else if z * z \<le> y * y then y else z)
         in if lead < 0 then (- w, - x, - y, - z) else (w, x, y, z)))"

definition pydrake_Quaternion ::
  "real \<times> real \<times> real \<times> real \<Rightarrow> pydrake_error + real \<times> real \<times> real \<times> real" where
  "pydrake_Quaternion wxyz = (if unit_wxyz wxyz then Inr wxyz else Inl Quaternion_not_normalized)"

definition pydrake_RigidTransform ::
  "real \<times> real \<times> real \<times> real \<Rightarrow> real \<times> real \<times> real \<Rightarrow> pydrake_error + RigidTransform" where
  "pydrake_RigidTransform quat p = Inr \<lparr>rt_translation = p, rt_wxyz = canonical_wxyz quat\<rparr>"

definition valid_RigidTransform :: "RigidTransform \<Rightarrow> bool" where
  "valid_RigidTransform X = (unit_wxyz (rt_wxyz X) \<and> canonical_wxyz (rt_wxyz X) = rt_wxyz X)"

subsection \<open>An example scene\<close>

text \<open>
  Three geometries on two frames: a box and a capsule on frame 7, a sphere on frame 3.
  The box and the sphere have illustration properties (the box with a diffuse colour),
  the capsule has proximity properties only.
\<close>

definition demo_pose :: RigidTransform where
  "demo_pose = \<lparr>rt_translation = (1, 2, 3), rt_wxyz = (1, 0, 0, 0)\<rparr>"

definition demo_stamp :: Time where
  "demo_stamp = \<lparr>secs = 10, nsecs = 5\<rparr>"

definition demo_color :: Rgba where
  "demo_color = \<lparr>rgba_r = 2, rgba_g = - 1, rgba_b = 0.5, rgba_a = 1\<rparr>"

definition demo_inspector :: SceneGraphInspector where
  "demo_inspector =
     \<lparr>GetAllGeometryIds = [0, 1, 2],
      GetShape = (\<lambda>g. if g = 0 then Box 1 2 3 else if g = 1 then Sphere 2 else Capsule 1 4),
      GetFrameId = (\<lambda>g. if g = 1 then 3 else 7),
      GetPoseInFrame = (\<lambda>g. demo_pose),
      GetName_geometry = (\<lambda>g. if g = 0 then ''table'' else if g = 1 then ''ball'' else ''link''),
      GetName_frame = (\<lambda>f. if f = 3 then ''arm'' else ''base''),
      GetProximityProperties = (\<lambda>g. if g = 2 then Some Map.empty else None),
      GetIllustrationProperties =
        (\<lambda>g. if g = 0 then Some [(''phong'', ''diffuse'') \<mapsto> demo_color]
             else if g = 1 then Some Map.empty else None),
      GetPerceptionProperties = (\<lambda>g. None)\<rparr>"

definition demo_query :: QueryObject where
  "demo_query = \<lparr>inspector = demo_inspector, X_WF = (\<lambda>f. demo_pose)\<rparr>"

text \<open>The same scene with both frames named alike.\<close>

definition clash_query :: QueryObject where
  "clash_query = demo_query\<lparr>inspector := demo_inspector\<lparr>GetName_frame := (\<lambda>f. ''base'')\<rparr>\<rparr>"

section \<open>Properties\<close>

subsection \<open>Marker codec\<close>

lemma marker_init_fields:
  "action (marker_init st fn X) = Marker_ADD"
  "lifetime (marker_init st fn X) = Duration_0"
  "frame_locked (marker_init st fn X)"
  "frame_id (header (marker_init st fn X)) = fn"
  "stamp (header (marker_init st fn X)) = st"
  "pose (marker_init st fn X) = to_ros_pose X"
  "scale (marker_init st fn X) = Vector3_0"
  "color (marker_init st fn X) = ColorRGBA0"
  "id' (marker_init st fn X) = 0"
  by (simp_all add: marker_init_def Let_def Marker0_def Header0_def)

lemma use_color_fields:
  "action (use_color c m) = action m"
  "lifetime (use_color c m) = lifetime m"
  "frame_locked (use_color c m) = frame_locked m"
  "header (use_color c m) = header m"
  "pose (use_color c m) = pose m"
  "scale (use_color c m) = scale m"
  "type' (use_color c m) = type' m"
  "mesh_resource (use_color c m) = mesh_resource m"
  "mesh_use_embedded_materials (use_color c m) = mesh_use_embedded_materials m"
  by (simp_all add: use_color_def Let_def)

lemma use_color_color:
  "color (use_color None m) = \<lparr>c_r = 0.9, c_g = 0.9, c_b = 0.9, c_a = 1.0\<rparr>"
  "color (use_color (Some c) m) = \<lparr>c_r = rgba_r c, c_g = rgba_g c, c_b = rgba_b c, c_a = rgba_a c\<rparr>"
  by (simp_all add: use_color_def Let_def DEFAULT_RGBA_def)

lemma to_ros_markers_Inr_single:
  "to_ros_markers shape st fn X c = Inr ms \<Longrightarrow> \<exists>m. ms = [m]"
  by (cases shape) (auto simp: Let_def)

lemma to_ros_markers_Inl:
  "to_ros_markers shape st fn X c = Inl e \<Longrightarrow> e = Unsupported_type shape \<and> \<not> supported_shape shape"
  by (cases shape) (auto simp: Let_def)

lemma to_ros_markers_unsupported:
  "\<not> supported_shape shape \<Longrightarrow> to_ros_markers shape st fn X c = Inl (Unsupported_type shape)"
  by (cases shape) simp_all

text \<open>
  Claim C6. \<^verbatim>\<open>to_ros_markers\<close> dispatches on the shape: a box gives one marker of
  kind CUBE whose scale is the box's size; a sphere of radius \<open>r\<close> gives kind SPHERE with
  scale \<open>(r, r, r)\<close>; a cylinder of radius \<open>r\<close> and length \<open>l\<close> gives kind CYLINDER with
  scale \<open>(r, r, l)\<close>; a mesh or a convex hull gives kind MESH_RESOURCE with resource path
  \<^verbatim>\<open>file://\<close> followed by the file name, the uniform scale on all three axes, and the
  embedded materials flag set.
\<close>

theorem to_ros_markers_dispatch:
  "(\<exists>m. to_ros_markers (Box sx sy sz) st fn X c = Inr [m] \<and> type' m = Marker_CUBE
        \<and> scale m = \<lparr>v_x = sx, v_y = sy, v_z = sz\<rparr>)
   \<and> (\<exists>m. to_ros_markers (Sphere r) st fn X c = Inr [m] \<and> type' m = Marker_SPHERE
        \<and> scale m = \<lparr>v_x = r, v_y = r, v_z = r\<rparr>)
   \<and> (\<exists>m. to_ros_markers (Cylinder r l) st fn X c = Inr [m] \<and> type' m = Marker_CYLINDER
        \<and> scale m = \<lparr>v_x = r, v_y = r, v_z = l\<rparr>)
   \<and> (\<exists>m. to_ros_markers (Mesh f s) st fn X c = Inr [m] \<and> type' m = Marker_MESH_RESOURCE
        \<and> mesh_resource m = ''file://'' @ f \<and> scale m = \<lparr>v_x = s, v_y = s, v_z = s\<rparr>
        \<and> mesh_use_embedded_materials m)
   \<and> (\<exists>m. to_ros_markers (Convex f s) st fn X c = Inr [m] \<and> type' m = Marker_MESH_RESOURCE
        \<and> mesh_resource m = ''file://'' @ f \<and> scale m = \<lparr>v_x = s, v_y = s, v_z = s\<rparr>
        \<and> mesh_use_embedded_materials m)"
  by (simp add: Let_def use_color_fields marker_init_fields Vector3_0_def)

text \<open>
  Claim C8. Every marker that \<^verbatim>\<open>to_ros_markers\<close> returns has action ADD, lifetime 0,
  the frame lock set, the supplied frame name in its header, and the pose
  \<^verbatim>\<open>to_ros_pose\<close> of the supplied pose in the frame.
\<close>

theorem to_ros_markers_common_fields:
  "to_ros_markers shape st fn X c = Inr ms \<Longrightarrow> m \<in> set ms \<Longrightarrow>
   action m = Marker_ADD \<and> lifetime m = \<lparr>secs = 0, nsecs = 0\<rparr> \<and> frame_locked m
   \<and> frame_id (header m) = fn \<and> pose m = to_ros_pose X"
  by (cases shape) (auto simp: Let_def use_color_fields marker_init_fields Duration_0_def)

theorem to_ros_markers_common_fields_witness:
  "\<exists>m. to_ros_markers (Cylinder 1 4) demo_stamp ''base'' demo_pose None = Inr [m]
     \<and> action m = 0 \<and> lifetime m = \<lparr>secs = 0, nsecs = 0\<rparr> \<and> frame_locked m
     \<and> frame_id (header m) = ''base''
     \<and> pose m = \<lparr>position = \<lparr>p_x = 1, p_y = 2, p_z = 3\<rparr>,
                 orientation = \<lparr>q_x = 0, q_y = 0, q_z = 0, q_w = 1\<rparr>\<rparr>"
proof -
  obtain m where h: "to_ros_markers (Cylinder 1 4) demo_stamp ''base'' demo_pose None = Inr [m]"
    by (simp add: Let_def)
  have p: "to_ros_pose demo_pose = \<lparr>position = \<lparr>p_x = 1, p_y = 2, p_z = 3\<rparr>,
                 orientation = \<lparr>q_x = 0, q_y = 0, q_z = 0, q_w = 1\<rparr>\<rparr>"
    by (simp add: to_ros_pose_def write_pose_msg_Point_def demo_pose_def Pose0_def Point0_def
        QuaternionMsg0_def Let_def)
  from to_ros_markers_common_fields [OF h, of m] h p show ?thesis
    by (simp add: Marker_ADD_def)
qed

text \<open>
  Claim C9. Without a colour the marker's colour is exactly (0.9, 0.9, 0.9, 1.0); a colour
  that is supplied is written component by component, whatever its values.
\<close>

theorem to_ros_markers_color:
  "to_ros_markers shape st fn X c = Inr ms \<Longrightarrow> m \<in> set ms \<Longrightarrow>
   color m = (case c of
      None \<Rightarrow> \<lparr>c_r = 0.9, c_g = 0.9, c_b = 0.9, c_a = 1.0\<rparr>
    | Some k \<Rightarrow> \<lparr>c_r = rgba_r k, c_g = rgba_g k, c_b = rgba_b k, c_a = rgba_a k\<rparr>)"
  by (cases shape; cases c) (auto simp: Let_def use_color_color)

theorem to_ros_markers_color_witness:
  "(\<exists>m. to_ros_markers (Sphere 2) demo_stamp ''arm'' demo_pose None = Inr [m]
      \<and> color m = \<lparr>c_r = 0.9, c_g = 0.9, c_b = 0.9, c_a = 1\<rparr>)
   \<and> (\<exists>m. to_ros_markers (Sphere 2) demo_stamp ''arm'' demo_pose (Some demo_color) = Inr [m]
      \<and> color m = \<lparr>c_r = 2, c_g = - 1, c_b = 0.5, c_a = 1\<rparr>)"
proof -
  obtain m where h: "to_ros_markers (Sphere 2) demo_stamp ''arm'' demo_pose None = Inr [m]"
    by (simp add: Let_def)
  obtain m' where h': "to_ros_markers (Sphere 2) demo_stamp ''arm'' demo_pose (Some demo_color) = Inr [m']"
    by (simp add: Let_def)
  from to_ros_markers_color [OF h, of m] to_ros_markers_color [OF h', of m'] h h'
  show ?thesis
    by (simp add: demo_color_def)
qed

text \<open>
  Claim C10. For each of the five supported shapes \<^verbatim>\<open>to_ros_markers\<close> returns a list
  of exactly one marker.
\<close>

theorem to_ros_markers_singleton:
  "supported_shape shape \<Longrightarrow> \<exists>m. to_ros_markers shape st fn X c = Inr [m]"
  by (cases shape) (simp_all add: Let_def)

theorem to_ros_markers_singleton_witness:
  "supported_shape (Mesh ''cup.obj'' 2)
   \<and> (\<exists>m. to_ros_markers (Mesh ''cup.obj'' 2) demo_stamp ''base'' demo_pose None = Inr [m])"
  using to_ros_markers_singleton [of "Mesh ''cup.obj'' 2" demo_stamp "''base''" demo_pose None]
  by simp

subsection \<open>Scene enumeration\<close>

lemma get_role_properties_Inr_all:
  "get_role_properties insp role g = Inr p \<Longrightarrow> \<exists>p'. get_role_properties insp role g' = Inr p'"
  by (cases role) simp_all

lemma marker_loop_abort:
  "g \<in> set gs \<Longrightarrow> get_role_properties insp role g = Inr (Some props) \<Longrightarrow>
   \<not> supported_shape (GetShape insp g) \<Longrightarrow>
   \<exists>s. \<not> supported_shape s \<and> marker_loop insp role st gs acc = Inl (Unsupported_type s)"
proof (induction gs arbitrary: acc)
  case Nil
  then show ?case by simp
next
  case (Cons h gs)
  obtain p where p: "get_role_properties insp role h = Inr p"
    using get_role_properties_Inr_all [OF Cons.prems(2)] by blast
  show ?case
  proof (cases p)
    case None
    with p Cons show ?thesis by (auto simp: Let_def)
  next
    case (Some pr)
    let ?c = "if HasProperty pr ''phong'' ''diffuse'' then GetProperty pr ''phong'' ''diffuse'' else None"
    let ?r = "to_ros_markers (GetShape insp h) st (GetName_frame insp (GetFrameId insp h))
                (GetPoseInFrame insp h) ?c"
    show ?thesis
    proof (cases ?r)
      case (Inl e)
      from to_ros_markers_Inl [OF Inl] p Some Inl show ?thesis
        by (auto simp: Let_def)
    next
      case (Inr ms)
      have "h \<noteq> g"
        using Inr Cons.prems(3) to_ros_markers_unsupported [of "GetShape insp g"] by auto
      with Cons.prems have "g \<in> set gs" by simp
      from Cons.IH [OF this Cons.prems(2,3)] p Some Inr show ?thesis
        by (simp add: Let_def)
    qed
  qed
qed

lemma has_role_get_role_properties:
  "get_role_properties insp role g = Inr po \<Longrightarrow> has_role insp role g = (po \<noteq> None)"
  by (cases role) auto

lemma marker_loop_length:
  "marker_loop insp role st gs acc = Inr ms \<Longrightarrow>
   length ms = length acc + length (filter (has_role insp role) gs)"
proof (induction gs arbitrary: acc)
  case Nil
  then show ?case by simp
next
  case (Cons h gs)
  obtain po where p: "get_role_properties insp role h = Inr po"
    using Cons.prems by (auto simp: Let_def split: sum.splits)
  from has_role_get_role_properties [OF p] p Cons show ?case
    by (auto simp: Let_def split: sum.splits option.splits
        dest!: to_ros_markers_Inr_single)
qed

lemma assign_ids_ids: "map id' (assign_ids i ms) = map int [i..<i + length ms]"
proof (induction ms arbitrary: i)
  case Nil
  then show ?case by simp
next
  case (Cons m ms)
  have "[i..<i + length (m # ms)] = i # [Suc i..<Suc i + length ms]"
    by (simp add: upt_rec)
  with Cons show ?case by simp
qed

lemma demo_marker_loop:
  "\<exists>m0 m1. marker_loop demo_inspector kIllustration demo_stamp [0, 1, 2] [] = Inr [m0, m1]"
  by (simp add: demo_inspector_def Let_def)

text \<open>
  Claim C3. The markers of the array that \<^verbatim>\<open>to_ros_marker_array\<close> returns carry the
  identifiers 0, 1, ..., N-1 in this order, where N is the number of geometries that have
  properties for the requested role; the renumbering does not depend on the identifiers
  the markers had before.
\<close>

theorem marker_array_ids:
  "(to_ros_marker_array q role st = Inr ma \<longrightarrow>
     map id' (markers ma) =
     map int [0..<length (filter (has_role (inspector q) role) (GetAllGeometryIds (inspector q)))])
   \<and> map id' (assign_ids 0 ms) = map int [0..<length ms]"
proof
  show "to_ros_marker_array q role st = Inr ma \<longrightarrow>
     map id' (markers ma) =
     map int [0..<length (filter (has_role (inspector q) role) (GetAllGeometryIds (inspector q)))]"
  proof
    assume h: "to_ros_marker_array q role st = Inr ma"
    then obtain ms' where
      l: "marker_loop (inspector q) role st (GetAllGeometryIds (inspector q)) [] = Inr ms'"
      and m: "markers ma = assign_ids 0 ms'"
      by (auto simp: to_ros_marker_array_def Let_def MarkerArray0_def split: sum.splits)
    from marker_loop_length [OF l] m
    show "map id' (markers ma) =
      map int [0..<length (filter (has_role (inspector q) role) (GetAllGeometryIds (inspector q)))]"
      using assign_ids_ids [of 0 ms'] by simp
  qed
  show "map id' (assign_ids 0 ms) = map int [0..<length ms]"
    using assign_ids_ids [of 0 ms] by simp
qed

theorem marker_array_ids_witness:
  "(\<exists>ma. to_ros_marker_array demo_query kIllustration demo_stamp = Inr ma
      \<and> map id' (markers ma) = [0, 1])
   \<and> (\<exists>ma. to_ros_marker_array demo_query kPerception demo_stamp = Inr ma
      \<and> map id' (markers ma) = [])
   \<and> map id' (assign_ids 0 [Marker0\<lparr>id' := 7\<rparr>, Marker0\<lparr>id' := 7\<rparr>]) = [0, 1]"
proof -
  obtain m0 m1 where
    l: "marker_loop demo_inspector kIllustration demo_stamp [0, 1, 2] [] = Inr [m0, m1]"
    using demo_marker_loop by blast
  define ma where "ma = \<lparr>markers = assign_ids 0 [m0, m1]\<rparr>"
  have h: "to_ros_marker_array demo_query kIllustration demo_stamp = Inr ma"
    using l by (simp add: to_ros_marker_array_def demo_query_def Let_def MarkerArray0_def
        ma_def demo_inspector_def)
  have n: "filter (has_role (inspector demo_query) kIllustration)
             (GetAllGeometryIds (inspector demo_query)) = [0, 1]"
    by (simp add: demo_query_def demo_inspector_def)
  obtain ma' where h': "to_ros_marker_array demo_query kPerception demo_stamp = Inr ma'"
    by (simp add: to_ros_marker_array_def demo_query_def Let_def demo_inspector_def)
  have n': "filter (has_role (inspector demo_query) kPerception)
             (GetAllGeometryIds (inspector demo_query)) = []"
    by (simp add: demo_query_def demo_inspector_def)
  have u: "[0..<2] = [0, Suc 0]"
    by (simp add: upt_rec)
  from marker_array_ids [of demo_query kIllustration demo_stamp ma
      "[Marker0\<lparr>id' := 7\<rparr>, Marker0\<lparr>id' := 7\<rparr>]"]
    marker_array_ids [of demo_query kPerception demo_stamp ma' "[]"] h n h' n' u
  show ?thesis by auto
qed

text \<open>
  Claim C7. A shape other than box, sphere, cylinder, mesh and convex hull makes
  \<^verbatim>\<open>to_ros_markers\<close> fail on its assertion instead of returning a list, and inside
  \<^verbatim>\<open>to_ros_marker_array\<close> the failure ends the enumeration: no array is returned.
\<close>

theorem unsupported_shape_fails:
  "\<not> supported_shape shape \<Longrightarrow>
   to_ros_markers shape st fn X c = Inl (Unsupported_type shape)
   \<and> (g \<in> set (GetAllGeometryIds (inspector q)) \<and> GetShape (inspector q) g = shape
      \<and> get_role_properties (inspector q) role g = Inr (Some props)
      \<longrightarrow> (\<exists>s. \<not> supported_shape s \<and> to_ros_marker_array q role st = Inl (Unsupported_type s)))"
  using marker_loop_abort [of g "GetAllGeometryIds (inspector q)" "inspector q" role props st "[]"]
  by (auto simp: to_ros_markers_unsupported to_ros_marker_array_def Let_def MarkerArray0_def)

theorem unsupported_shape_fails_witness:
  "\<not> supported_shape (Capsule 1 4)
   \<and> to_ros_markers (Capsule 1 4) demo_stamp ''base'' demo_pose None
       = Inl (Unsupported_type (Capsule 1 4))
   \<and> (\<exists>s. \<not> supported_shape s
        \<and> to_ros_marker_array demo_query kProximity demo_stamp = Inl (Unsupported_type s))"
proof -
  have a: "\<not> supported_shape (Capsule 1 4)" by simp
  have b: "2 \<in> set (GetAllGeometryIds (inspector demo_query))
      \<and> GetShape (inspector demo_query) 2 = Capsule 1 4
      \<and> get_role_properties (inspector demo_query) kProximity 2 = Inr (Some Map.empty)"
    by (simp add: demo_query_def demo_inspector_def)
  from unsupported_shape_fails [of "Capsule 1 4" demo_stamp "''base''" demo_pose None 2
      demo_query kProximity Map.empty] a b
  show ?thesis by blast
qed

text \<open>
  Claim C5. \<^verbatim>\<open>sanity_check_query_object\<close> fails on an assertion when the number of
  distinct frame identifiers differs from the number of distinct frame names, or the
  number of distinct geometry identifiers differs from the number of distinct geometry
  names; it passes when no two frames and no two geometries share a name.
\<close>

lemma sanity_loop_eq:
  "sanity_loop insp gs (FI, FN, GI, GN) =
     (FI \<union> GetFrameId insp ` set gs,
      FN \<union> GetName_frame insp ` GetFrameId insp ` set gs,
      GI \<union> set gs,
      GN \<union> GetName_geometry insp ` set gs)"
  by (induction gs arbitrary: FI FN GI GN) (auto simp: Let_def)

theorem sanity_check_counts:
  "(card (GetFrameId (inspector q) ` set (GetAllGeometryIds (inspector q)))
      \<noteq> card (GetName_frame (inspector q) ` GetFrameId (inspector q)
                 ` set (GetAllGeometryIds (inspector q)))
    \<or> card (set (GetAllGeometryIds (inspector q)))
      \<noteq> card (GetName_geometry (inspector q) ` set (GetAllGeometryIds (inspector q)))
    \<longrightarrow> sanity_check_query_object q \<in> {Inl Assert_frame_names, Inl Assert_geometry_names})
   \<and> (inj_on (GetName_frame (inspector q))
          (GetFrameId (inspector q) ` set (GetAllGeometryIds (inspector q)))
      \<and> inj_on (GetName_geometry (inspector q)) (set (GetAllGeometryIds (inspector q)))
    \<longrightarrow> sanity_check_query_object q = Inr ())"
  by (auto simp: sanity_check_query_object_def Let_def sanity_loop_eq card_image)

theorem sanity_check_counts_witness:
  "sanity_check_query_object clash_query = Inl Assert_frame_names
   \<and> sanity_check_query_object demo_query = Inr ()"
proof -
  have c: "card (GetFrameId (inspector clash_query) ` set (GetAllGeometryIds (inspector clash_query)))
      \<noteq> card (GetName_frame (inspector clash_query) ` GetFrameId (inspector clash_query)
                 ` set (GetAllGeometryIds (inspector clash_query)))"
    by (simp add: clash_query_def demo_query_def demo_inspector_def)
  have g: "card (set (GetAllGeometryIds (inspector clash_query)))
      = card (GetName_geometry (inspector clash_query) ` set (GetAllGeometryIds (inspector clash_query)))"
    by (simp add: clash_query_def demo_query_def demo_inspector_def)
  have d: "inj_on (GetName_frame (inspector demo_query))
          (GetFrameId (inspector demo_query) ` set (GetAllGeometryIds (inspector demo_query)))
      \<and> inj_on (GetName_geometry (inspector demo_query)) (set (GetAllGeometryIds (inspector demo_query)))"
    by (simp add: demo_query_def demo_inspector_def)
  have n: "sanity_check_query_object clash_query \<noteq> Inl Assert_geometry_names"
    using c g by (simp add: sanity_check_query_object_def Let_def sanity_loop_eq)
  from sanity_check_counts [of clash_query] sanity_check_counts [of demo_query] c d n
  show ?thesis by blast
qed

subsection \<open>Frame transforms\<close>

lemma collect_frame_ids_eq:
  "collect_frame_ids insp gs S = S \<union> GetFrameId insp ` set gs"
  by (induction gs arbitrary: S) auto

lemma tf_loop_transforms:
  "transforms (tf_loop q st fs tf) = transforms tf @ map (tf_entry q st) fs"
  by (induction fs arbitrary: tf) auto

lemma tf_entry_eq:
  "tf_entry q st f = \<lparr>ts_header = \<lparr>seq = 0, stamp = st, frame_id = ''world''\<rparr>,
     child_frame_id = GetName_frame (inspector q) f, transform = to_ros_transform (X_WF q f)\<rparr>"
  by (simp add: tf_entry_def Let_def TransformStamped0_def Header0_def)

text \<open>
  Claim C4. The transforms of the message that \<^verbatim>\<open>to_ros_tf_message\<close> returns follow
  a list of frame identifiers that is sorted, has no duplicate, and holds exactly the frames
  of the snapshot's geometries; the entry of a frame has parent \<^verbatim>\<open>world\<close>, the frame's
  name as child, and \<^verbatim>\<open>to_ros_transform\<close> of the frame's world pose as transform.
  So there are as many entries as distinct frames.
\<close>

theorem tf_message_sorted_distinct_frames:
  "\<exists>fs. sorted fs \<and> distinct fs
     \<and> set fs = GetFrameId (inspector q) ` set (GetAllGeometryIds (inspector q))
     \<and> length (transforms (to_ros_tf_message q st))
         = card (GetFrameId (inspector q) ` set (GetAllGeometryIds (inspector q)))
     \<and> transforms (to_ros_tf_message q st) =
         map (\<lambda>f. \<lparr>ts_header = \<lparr>seq = 0, stamp = st, frame_id = ''world''\<rparr>,
                   child_frame_id = GetName_frame (inspector q) f,
                   transform = to_ros_transform (X_WF q f)\<rparr>) fs"
proof -
  let ?S = "GetFrameId (inspector q) ` set (GetAllGeometryIds (inspector q))"
  let ?fs = "sorted_list_of_set ?S"
  have "finite ?S" by simp
  then have "sorted ?fs" "distinct ?fs" "set ?fs = ?S" "length ?fs = card ?S"
    by simp_all
  moreover have "transforms (to_ros_tf_message q st) = map (tf_entry q st) ?fs"
    by (simp add: to_ros_tf_message_def Let_def collect_frame_ids_eq tf_loop_transforms
        TFMessage0_def)
  ultimately show ?thesis
    unfolding tf_entry_eq by (intro exI [of _ ?fs]) simp
qed

subsection \<open>Pose and transform codec\<close>

lemma to_ros_pose_fields:
  "rt_translation X = (tx, ty, tz) \<Longrightarrow> rt_wxyz X = (w, x, y, z) \<Longrightarrow>
   to_ros_pose X = \<lparr>position = \<lparr>p_x = tx, p_y = ty, p_z = tz\<rparr>,
                    orientation = \<lparr>q_x = x, q_y = y, q_z = z, q_w = w\<rparr>\<rparr>"
  by (simp add: to_ros_pose_def write_pose_msg_Point_def Pose0_def Point0_def
      QuaternionMsg0_def Let_def)

lemma to_ros_transform_fields:
  "rt_translation X = (tx, ty, tz) \<Longrightarrow> rt_wxyz X = (w, x, y, z) \<Longrightarrow>
   to_ros_transform X = \<lparr>translation = \<lparr>v_x = tx, v_y = ty, v_z = tz\<rparr>,
                         rotation = \<lparr>q_x = x, q_y = y, q_z = z, q_w = w\<rparr>\<rparr>"
  by (simp add: to_ros_transform_def write_pose_msg_Vector3_def Transform0_def Vector3_0_def
      QuaternionMsg0_def Let_def)

lemma from_to_ros_pose:
  "from_ros_pose Q R (to_ros_pose X) =
     (case Q (rt_wxyz X) of Inl e \<Rightarrow> Inl e | Inr quat \<Rightarrow> R quat (rt_translation X))"
proof -
  obtain tx ty tz where t: "rt_translation X = (tx, ty, tz)"
    by (cases "rt_translation X") auto
  obtain w x y z where r: "rt_wxyz X = (w, x, y, z)"
    by (cases "rt_wxyz X") auto
  show ?thesis
    by (simp add: to_ros_pose_fields [OF t r] from_ros_pose_def read_pose_msg_def t r
        split: sum.splits)
qed

lemma from_to_ros_transform:
  "from_ros_transform Q R (to_ros_transform X) =
     (case Q (rt_wxyz X) of Inl e \<Rightarrow> Inl e | Inr quat \<Rightarrow> R quat (rt_translation X))"
proof -
  obtain tx ty tz where t: "rt_translation X = (tx, ty, tz)"
    by (cases "rt_translation X") auto
  obtain w x y z where r: "rt_wxyz X = (w, x, y, z)"
    by (cases "rt_wxyz X") auto
  show ?thesis
    by (simp add: to_ros_transform_fields [OF t r] from_ros_transform_def read_pose_msg_def t r
        split: sum.splits)
qed

text \<open>
  Claim C1. For every valid rigid transform \<open>X\<close>, reading back the pose message written
  for \<open>X\<close> gives \<open>X\<close> again, translation and rotation both, and so does reading back the
  transform message. Over the reals the equality is exact. In general the round trip is
  what the two constructors make of the translation and the quaternion of \<open>X\<close>.
\<close>

theorem ros_round_trip:
  "from_ros_pose Q R (to_ros_pose X) =
     (case Q (rt_wxyz X) of Inl e \<Rightarrow> Inl e | Inr quat \<Rightarrow> R quat (rt_translation X))
   \<and> from_ros_transform Q R (to_ros_transform X) =
     (case Q (rt_wxyz X) of Inl e \<Rightarrow> Inl e | Inr quat \<Rightarrow> R quat (rt_translation X))
   \<and> (valid_RigidTransform X \<longrightarrow>
        from_ros_pose pydrake_Quaternion pydrake_RigidTransform (to_ros_pose X) = Inr X
        \<and> from_ros_transform pydrake_Quaternion pydrake_RigidTransform (to_ros_transform X) = Inr X)"
  by (simp add: from_to_ros_pose from_to_ros_transform valid_RigidTransform_def
      pydrake_Quaternion_def pydrake_RigidTransform_def)

theorem ros_round_trip_witness:
  "valid_RigidTransform \<lparr>rt_translation = (1, 2, 3), rt_wxyz = (0, - 0.6, 0.8, 0)\<rparr>
   \<and> from_ros_pose pydrake_Quaternion pydrake_RigidTransform
        (to_ros_pose \<lparr>rt_translation = (1, 2, 3), rt_wxyz = (0, - 0.6, 0.8, 0)\<rparr>)
      = Inr \<lparr>rt_translation = (1, 2, 3), rt_wxyz = (0, - 0.6, 0.8, 0)\<rparr>
   \<and> from_ros_transform pydrake_Quaternion pydrake_RigidTransform
        (to_ros_transform \<lparr>rt_translation = (1, 2, 3), rt_wxyz = (0, - 0.6, 0.8, 0)\<rparr>)
      = Inr \<lparr>rt_translation = (1, 2, 3), rt_wxyz = (0, - 0.6, 0.8, 0)\<rparr>"
proof -
  have v: "valid_RigidTransform \<lparr>rt_translation = (1, 2, 3), rt_wxyz = (0, - 0.6, 0.8, 0)\<rparr>"
    by (simp add: valid_RigidTransform_def unit_wxyz_def canonical_wxyz_def)
  from ros_round_trip [of pydrake_Quaternion pydrake_RigidTransform
      "\<lparr>rt_translation = (1, 2, 3), rt_wxyz = (0, - 0.6, 0.8, 0)\<rparr>"] v
  show ?thesis by blast
qed




end
